theory Spec2Isabelle
  imports Main "HOL-Library.Word"
begin

section \<open>Python values\<close>

text \<open>
  A Python \<open>str\<close> is a sequence of Unicode code points (the transcripts are Devanagari
  text), so a string is a list of code points; \<open>u\<close> turns an ASCII literal of the source
  into such a list. \<open>bytes\<close> are lists of 8-bit words, audio samples are 16-bit words.
\<close>

type_synonym pystr = "nat list"
type_synonym bytes = "8 word list"
type_synonym int16 = "16 word"

text \<open>
  An exception with its message: of class \<open>Exception\<close> or a subclass, which
  \<open>except Exception\<close> catches, or another \<open>BaseException\<close> (\<open>KeyboardInterrupt\<close>,
  \<open>SystemExit\<close>, the script control exceptions of Streamlit), which it does not catch.
\<close>

datatype exn = PyException string | PyBaseException string

definition u :: "string \<Rightarrow> pystr" where
  "u s = map of_char s"

text \<open>\<open>str.isspace\<close> on one code point: the Unicode white space characters.\<close>

definition isspace :: "nat \<Rightarrow> bool" where
  "isspace c \<longleftrightarrow>
     (9 \<le> c \<and> c \<le> 13) \<or> (28 \<le> c \<and> c \<le> 32) \<or> c = 133 \<or> c = 160 \<or> c = 5760
     \<or> (8192 \<le> c \<and> c \<le> 8202) \<or> c = 8232 \<or> c = 8233 \<or> c = 8239 \<or> c = 8287
     \<or> c = 12288"

text \<open>\<open>str.strip()\<close>: leading and trailing white space removed.\<close>

definition strip :: "pystr \<Rightarrow> pystr" where
  "strip s = rev (dropWhile isspace (rev (dropWhile isspace s)))"

text \<open>\<open>sep.join(xs)\<close>.\<close>

fun join :: "pystr \<Rightarrow> pystr list \<Rightarrow> pystr" where
  "join sep [] = []"
| "join sep [x] = x"
| "join sep (x # y # ys) = x @ sep @ join sep (y # ys)"

text \<open>The decimal digits of a non-negative integer, as an f-string prints it.\<close>

fun digits :: "nat \<Rightarrow> nat \<Rightarrow> pystr" where
  "digits 0 n = []"
| "digits (Suc k) n = (if n < 10 then [48 + n] else digits k (n div 10) @ [48 + n mod 10])"

definition str_nat :: "nat \<Rightarrow> pystr" where
  "str_nat n = digits (Suc n) n"

text \<open>
  \<open>json.loads(rec.Result())\<close> is a dictionary; the code only reads its key \<open>"text"\<close>.
  A result is modelled by the value under that key, \<open>None\<close> when the key is absent.
  \<open>get_text\<close> is \<open>result.get("text", "")\<close>; \<open>truthy_text\<close> is the truth value of
  \<open>result.get("text")\<close>.
\<close>

type_synonym result_json = "pystr option"

definition get_text :: "result_json \<Rightarrow> pystr" where
  "get_text result = (case result of None \<Rightarrow> [] | Some t \<Rightarrow> t)"

definition truthy_text :: "result_json \<Rightarrow> bool" where
  "truthy_text result = (case result of None \<Rightarrow> False | Some t \<Rightarrow> t \<noteq> [])"

section \<open>The collaborators: vosk, librosa, wave, tempfile\<close>

text \<open>
  The recognizer library is not part of the repository: it is a parameter. \<open>'m\<close> is a
  loaded model, \<open>'s\<close> the state of one \<open>KaldiRecognizer\<close>. \<open>AcceptWaveform\<close> may raise
  (the library raises when it fails to process a waveform); \<open>Result\<close> and \<open>FinalResult\<close>
  return the result and reset the utterance, \<open>PartialResult\<close> only reads.
\<close>

record ('m, 's) vosk =
  KaldiRecognizer :: "'m \<Rightarrow> nat \<Rightarrow> exn + 's"
  SetWords :: "'s \<Rightarrow> bool \<Rightarrow> 's"
  AcceptWaveform :: "'s \<Rightarrow> bytes \<Rightarrow> exn + (bool \<times> 's)"
  Result :: "'s \<Rightarrow> result_json \<times> 's"
  PartialResult :: "'s \<Rightarrow> result_json"
  FinalResult :: "'s \<Rightarrow> result_json \<times> 's"

text \<open>What \<open>wave.open\<close> reads from a WAV file; \<open>frames\<close> is \<open>readframes(getnframes())\<close>.\<close>

record wav =
  nchannels :: nat
  sampwidth :: nat
  comptype :: pystr
  framerate :: nat
  frames :: bytes

type_synonym path = pystr
type_synonym filesystem = "path \<rightharpoonup> bytes"

text \<open>
  The platform: whether \<open>librosa\<close> was importable, \<open>os.path.splitext\<close>, the sequence of
  random names \<open>tempfile\<close> tries, \<open>librosa.load\<close> followed by the conversion to 16-bit
  samples (floating point, taken as one opaque step), \<open>wave.open\<close>, and what
  \<open>st.error\<close> and \<open>os.unlink\<close> raise, if anything (a script control exception when a
  rerun was requested, a \<open>PermissionError\<close>); a failing \<open>os.unlink\<close> leaves the file.
\<close>

record platform =
  LIBROSA_AVAILABLE :: bool
  splitext :: "pystr \<Rightarrow> pystr \<times> pystr"
  gettempdir :: pystr
  random_name :: "nat \<Rightarrow> pystr"
  librosa_load_int16 :: "bytes \<Rightarrow> nat \<Rightarrow> exn + int16 list"
  wave_open :: "bytes \<Rightarrow> exn + wav"
  st_error :: "pystr \<Rightarrow> exn option"
  os_unlink :: "path \<Rightarrow> exn option"

text \<open>
  \<open>tempfile.NamedTemporaryFile(delete=False, suffix=...)\<close> creates an empty file named
  directory, \<open>/tmp\<close> prefix, random characters, suffix. It creates the file
  exclusively: a name that exists is passed over, and after \<open>TMP_MAX\<close> names it raises.
\<close>

definition TMP_MAX :: nat where
  "TMP_MAX = 10000"

definition temp_candidates :: "platform \<Rightarrow> pystr \<Rightarrow> path list" where
  "temp_candidates P suffix =
     map (\<lambda>n. gettempdir P @ u ''/tmp'' @ random_name P n @ suffix) [0 ..< TMP_MAX]"

definition NamedTemporaryFile ::
  "platform \<Rightarrow> filesystem \<Rightarrow> pystr \<Rightarrow> exn + (path \<times> filesystem)" where
  "NamedTemporaryFile P fs suffix =
     (case find (\<lambda>p. fs p = None) (temp_candidates P suffix) of
        None \<Rightarrow> Inl (PyException ''FileExistsError: No usable temporary file name found'')
      | Some p \<Rightarrow> Inr (p, fs(p \<mapsto> [])))"

text \<open>\<open>np.frombuffer(b, dtype=np.int16)\<close> (little endian) and \<open>ndarray.tobytes()\<close>.\<close>

fun frombuffer :: "bytes \<Rightarrow> exn + int16 list" where
  "frombuffer [] = Inr []"
| "frombuffer [b] = Inl (PyException ''ValueError: buffer size must be a multiple of element size'')"
| "frombuffer (lo # hi # bs) =
     (case frombuffer bs of
        Inl e \<Rightarrow> Inl e
      | Inr ws \<Rightarrow> Inr (word_cat hi lo # ws))"

definition tobytes :: "int16 list \<Rightarrow> bytes" where
  "tobytes ws = concat (map (\<lambda>w. [ucast w, ucast (drop_bit 8 w)]) ws)"

section \<open>File mode: \<open>VoskSpeechRecognizer.transcribe_audio_file\<close>\<close>

record 'm VoskSpeechRecognizer =
  model_path :: pystr
  model :: "'m option"
  sample_rate :: nat

text \<open>
  The uploaded file object: its \<open>name\<close> attribute (possibly \<open>None\<close>) and what the
  one call of \<open>read()\<close> in the method does, which raises for instance on a closed
  file.
\<close>

record audio_file =
  name :: "pystr option"
  read :: "exn + bytes"

definition chunk_size :: nat where
  "chunk_size = 4000"

text \<open>\<open>range(0, stop, step)\<close> and the slice \<open>xs[i:j]\<close> for \<open>0 \<le> i \<le> j\<close>.\<close>

definition range_step :: "nat \<Rightarrow> nat \<Rightarrow> nat list" where
  "range_step stop step = map (\<lambda>k. k * step) [0 ..< (stop + step - 1) div step]"

definition slice :: "'a list \<Rightarrow> nat \<Rightarrow> nat \<Rightarrow> 'a list" where
  "slice xs i j = take (j - i) (drop i xs)"

text \<open>
  The chunks the \<open>for\<close> loop visits:
  \<open>for i in range(0, len(audio_int16), chunk_size): chunk = audio_int16[i:i+chunk_size]\<close>.
\<close>

definition file_chunks :: "'a list \<Rightarrow> 'a list list" where
  "file_chunks audio_int16 =
     map (\<lambda>i. slice audio_int16 i (i + chunk_size)) (range_step (length audio_int16) chunk_size)"

text \<open>
  The same loop read as a pull source: the iterator of the range holds the next index,
  a pull returns the slice there and advances, and an exhausted iterator stays exhausted.
\<close>

datatype 'a pulled = Chunk 'a | EndOfStream

definition file_next :: "'a list \<Rightarrow> nat \<Rightarrow> 'a list pulled \<times> nat" where
  "file_next audio_int16 i =
     (if i < length audio_int16
      then (Chunk (slice audio_int16 i (i + chunk_size)), i + chunk_size)
      else (EndOfStream, i))"

fun pulls :: "'a list \<Rightarrow> nat \<Rightarrow> nat \<Rightarrow> 'a list pulled list" where
  "pulls audio_int16 i 0 = []"
| "pulls audio_int16 i (Suc k) =
     (let (x, i') = file_next audio_int16 i in x # pulls audio_int16 i' k)"

text \<open>
  Lines 112 to 116: the body of the loop over the chunks. An exception of
  \<open>AcceptWaveform\<close> leaves the loop.
\<close>

fun transcribe_loop ::
  "('m, 's) vosk \<Rightarrow> 's \<Rightarrow> pystr \<Rightarrow> bytes list \<Rightarrow> exn + ('s \<times> pystr)" where
  "transcribe_loop V rec transcript [] = Inr (rec, transcript)"
| "transcribe_loop V rec transcript (chunk # chunks) =
     (case AcceptWaveform V rec chunk of
        Inl e \<Rightarrow> Inl e
      | Inr (accepted, rec') \<Rightarrow>
          if accepted then
            (let (result, rec'') = Result V rec'
             in transcribe_loop V rec'' (transcript @ get_text result @ u '' '') chunks)
          else transcribe_loop V rec' transcript chunks)"

text \<open>Lines 110 to 122: the loop from the empty transcript, \<open>FinalResult\<close>, \<open>strip\<close>.\<close>

definition transcribe_chunks :: "('m, 's) vosk \<Rightarrow> 's \<Rightarrow> bytes list \<Rightarrow> exn + pystr" where
  "transcribe_chunks V rec chunks =
     (case transcribe_loop V rec [] chunks of
        Inl e \<Rightarrow> Inl e
      | Inr (rec', transcript) \<Rightarrow>
          (let (final_result, rec'') = FinalResult V rec'
           in Inr (strip (transcript @ get_text final_result))))"

text \<open>Lines 106 to 122: a fresh recognizer for this call, then the chunks of the samples.\<close>

definition recognize :: "('m, 's) vosk \<Rightarrow> 'm \<Rightarrow> nat \<Rightarrow> int16 list \<Rightarrow> exn + pystr" where
  "recognize V m rate audio_int16 =
     (case KaldiRecognizer V m rate of
        Inl e \<Rightarrow> Inl e
      | Inr rec0 \<Rightarrow>
          transcribe_chunks V (SetWords V rec0 True) (map tobytes (file_chunks audio_int16)))"

text \<open>
  Lines 93 to 104: decoding the temporary file. The result is an exception, a message
  the function returns at once, or the samples.
\<close>

definition unsupported_wav :: pystr where
  "unsupported_wav =
     u ''Error: Without '' @ [39] @ u ''librosa'' @ [39]
       @ u '', only 16-bit mono PCM WAV files are supported.''"

definition wrong_rate :: "nat \<Rightarrow> nat \<Rightarrow> pystr" where
  "wrong_rate required actual =
     u ''Error: Audio must be '' @ str_nat required @ u ''Hz. This file is ''
       @ str_nat actual @ u ''Hz.''"

definition decode_audio ::
  "platform \<Rightarrow> 'm VoskSpeechRecognizer \<Rightarrow> filesystem \<Rightarrow> path \<Rightarrow> exn + (pystr + int16 list)" where
  "decode_audio P self fs tmp_file_path =
     (case fs tmp_file_path of
        None \<Rightarrow> Inl (PyException ''FileNotFoundError'')
      | Some content \<Rightarrow>
          if LIBROSA_AVAILABLE P then
            (case librosa_load_int16 P content (sample_rate self) of
               Inl e \<Rightarrow> Inl e
             | Inr audio_int16 \<Rightarrow> Inr (Inr audio_int16))
          else
            (case wave_open P content of
               Inl e \<Rightarrow> Inl e
             | Inr wav_file \<Rightarrow>
                 if nchannels wav_file \<noteq> 1 \<or> sampwidth wav_file \<noteq> 2 \<or> comptype wav_file \<noteq> u ''NONE''
                 then Inr (Inl unsupported_wav)
                 else if framerate wav_file \<noteq> sample_rate self
                 then Inr (Inl (wrong_rate (sample_rate self) (framerate wav_file)))
                 else (case frombuffer (frames wav_file) of
                         Inl e \<Rightarrow> Inl e
                       | Inr audio_int16 \<Rightarrow> Inr (Inr audio_int16))))"

text \<open>
  Lines 83 to 122, the body of \<open>try\<close>: the value of \<open>tmp_file_path\<close> when the body is
  left, the file system then, and how the body is left (an exception or a returned
  string). \<open>tmp_file_path\<close> is assigned after \<open>tmp_file.write(audio_file.read())\<close>.
  \<open>file_extension\<close> is the suffix of line 84.
\<close>

definition file_extension :: "platform \<Rightarrow> audio_file \<Rightarrow> pystr" where
  "file_extension P audio_file =
     (case name audio_file of
        None \<Rightarrow> u ''.tmp''
      | Some n \<Rightarrow> if n = [] then u ''.tmp'' else snd (splitext P n))"

definition try_body ::
  "('m, 's) vosk \<Rightarrow> platform \<Rightarrow> 'm VoskSpeechRecognizer \<Rightarrow> 'm \<Rightarrow> filesystem \<Rightarrow> audio_file
     \<Rightarrow> path option \<times> filesystem \<times> (exn + pystr)" where
  "try_body V P self m fs audio_file =
     (case NamedTemporaryFile P fs (file_extension P audio_file) of
        Inl e \<Rightarrow> (None, fs, Inl e)
      | Inr (tmp_file, fs1) \<Rightarrow>
          (case read audio_file of
             Inl e \<Rightarrow> (None, fs1, Inl e)
           | Inr content \<Rightarrow>
               (let fs2 = fs1(tmp_file \<mapsto> content)
                in (Some tmp_file, fs2,
                    case decode_audio P self fs2 tmp_file of
                      Inl e \<Rightarrow> Inl e
                    | Inr (Inl message) \<Rightarrow> Inr message
                    | Inr (Inr audio_int16) \<Rightarrow>
                        recognize V m (sample_rate self) audio_int16))))"

text \<open>
  Lines 124 to 126, \<open>except Exception as e\<close>, applied to how the body was left: a
  returned string passes, an \<open>Exception\<close> is answered by \<open>st.error\<close> with the message of
  line 125 and the error string, and another \<open>BaseException\<close>, or what \<open>st.error\<close>
  raises, goes on.
\<close>

definition exn_message :: "exn \<Rightarrow> pystr" where
  "exn_message e = (case e of PyException x \<Rightarrow> u x | PyBaseException x \<Rightarrow> u x)"

definition error_line :: "exn \<Rightarrow> pystr" where
  "error_line e = u ''An error occurred during audio processing: '' @ exn_message e"

definition except_Exception :: "platform \<Rightarrow> exn + pystr \<Rightarrow> exn + pystr" where
  "except_Exception P outcome =
     (case outcome of
        Inr s \<Rightarrow> Inr s
      | Inl (PyBaseException x) \<Rightarrow> Inl (PyBaseException x)
      | Inl (PyException x) \<Rightarrow>
          (case st_error P (error_line (PyException x)) of
             Some e' \<Rightarrow> Inl e'
           | None \<Rightarrow> Inr (u ''Error during transcription.'')))"

text \<open>
  Lines 128 to 131, \<open>finally\<close>: \<open>tmp_file_path\<close> is unlinked when it is set (a non-empty
  string) and the file exists; what \<open>os.unlink\<close> raises replaces the value returned or
  the exception under way.
\<close>

definition finally_unlink ::
  "platform \<Rightarrow> path option \<Rightarrow> filesystem \<Rightarrow> exn + pystr \<Rightarrow> (exn + pystr) \<times> filesystem" where
  "finally_unlink P tmp_file_path fs leaving =
     (case tmp_file_path of
        None \<Rightarrow> (leaving, fs)
      | Some p \<Rightarrow>
          if p \<noteq> [] \<and> fs p \<noteq> None then
            (case os_unlink P p of
               Some e' \<Rightarrow> (Inl e', fs)
             | None \<Rightarrow> (leaving, fs(p := None)))
          else (leaving, fs))"

text \<open>
  The whole method: the check of the model stands before \<open>try\<close>. The result is the
  exception that reaches the caller or the string returned, and the file system left.
\<close>

definition transcribe_audio_file ::
  "('m, 's) vosk \<Rightarrow> platform \<Rightarrow> 'm VoskSpeechRecognizer \<Rightarrow> filesystem \<Rightarrow> audio_file
     \<Rightarrow> (exn + pystr) \<times> filesystem" where
  "transcribe_audio_file V P self fs audio_file =
     (case model self of
        None \<Rightarrow> (Inr (u ''Error: Vosk model is not loaded.''), fs)
      | Some m \<Rightarrow>
          (let (tmp_file_path, fs1, outcome) = try_body V P self m fs audio_file
           in finally_unlink P tmp_file_path fs1 (except_Exception P outcome)))"

text \<open>
  Lines 475 to 480 of \<open>main\<close>: the button stores what the method returns as the
  session's \<open>vosk_transcript\<close>; an exception of the method reaches \<open>main\<close> before the
  assignment.
\<close>

record 'm session_state =
  vosk_recognizer :: "'m VoskSpeechRecognizer"
  vosk_transcript :: pystr

definition transcribe_button ::
  "('m, 's) vosk \<Rightarrow> platform \<Rightarrow> 'm session_state \<Rightarrow> filesystem \<Rightarrow> audio_file
     \<Rightarrow> (exn + 'm session_state) \<times> filesystem" where
  "transcribe_button V P st fs uploaded_file =
     (let (returned, fs') = transcribe_audio_file V P (vosk_recognizer st) fs uploaded_file
      in case returned of
           Inl e \<Rightarrow> (Inl e, fs')
         | Inr transcript \<Rightarrow> (Inr (st\<lparr>vosk_transcript := transcript\<rparr>), fs'))"

section \<open>Live mode\<close>

text \<open>
  \<open>LiveVoskRecognizer\<close> of \<open>Testing_STT.py\<close>: \<open>__init__\<close> creates the recognizer at
  16000 Hz with an empty transcript, \<open>process\<close> feeds one buffer and returns the
  transcript.
\<close>

record ('m, 's) LiveVoskRecognizer =
  live_model :: 'm
  live_rec :: 's
  live_transcript :: pystr

definition LiveVoskRecognizer_init ::
  "('m, 's) vosk \<Rightarrow> 'm \<Rightarrow> exn + ('m, 's) LiveVoskRecognizer" where
  "LiveVoskRecognizer_init V m =
     (case KaldiRecognizer V m 16000 of
        Inl e \<Rightarrow> Inl e
      | Inr rec0 \<Rightarrow>
          Inr \<lparr>live_model = m, live_rec = SetWords V rec0 True, live_transcript = []\<rparr>)"

definition process ::
  "('m, 's) vosk \<Rightarrow> ('m, 's) LiveVoskRecognizer \<Rightarrow> bytes
     \<Rightarrow> exn + (pystr \<times> ('m, 's) LiveVoskRecognizer)" where
  "process V self audio_bytes =
     (case AcceptWaveform V (live_rec self) audio_bytes of
        Inl e \<Rightarrow> Inl e
      | Inr (accepted, rec') \<Rightarrow>
          if accepted then
            (let (result, rec'') = Result V rec';
                 self' = self\<lparr>live_rec := rec'',
                              live_transcript := live_transcript self @ get_text result @ u '' ''\<rparr>
             in Inr (live_transcript self', self'))
          else
            (let partial = PartialResult V rec';
                 self' = self\<lparr>live_rec := rec'\<rparr>
             in Inr (live_transcript self', self')))"

text \<open>
  \<open>listen_audio\<close> of \<open>Hindi_STT.py\<close>. The list holds the buffers \<open>q.get()\<close> returned at
  the iterations that found \<open>keep_listening\<close> true. The result is the value of
  \<open>final_text\<close> after them, with the recognizer, or with the exception that ended the
  thread.
\<close>

fun listen_audio ::
  "('m, 's) vosk \<Rightarrow> 's \<Rightarrow> pystr \<Rightarrow> bytes list \<Rightarrow> pystr \<times> (exn + 's)" where
  "listen_audio V rec final_text [] = (final_text, Inr rec)"
| "listen_audio V rec final_text (data # q) =
     (case AcceptWaveform V rec data of
        Inl e \<Rightarrow> (final_text, Inl e)
      | Inr (accepted, rec') \<Rightarrow>
          if accepted then
            (let (result, rec'') = Result V rec'
             in if truthy_text result
                then listen_audio V rec'' (final_text @ get_text result @ u '' '') q
                else listen_audio V rec'' final_text q)
          else
            (let partial = PartialResult V rec'
             in listen_audio V rec' final_text q))"

text \<open>
  The page of \<open>Hindi_STT.py\<close>. Streamlit runs the whole script again on every page load
  and click, each run in a module of its own: \<open>st.session_state\<close> lasts from run to run,
  the module variables do not. Lines 16 to 23 give every run its own recognizer, its own
  \<open>keep_listening = False\<close> and \<open>final_text = ""\<close> and its own queue, and a
  \<open>listen_audio\<close> thread reads and writes the variables of the run that started it.
  \<open>thread_started\<close> records the call of \<open>threading.Thread(target=listen_audio).start()\<close>
  in a run, \<open>taken\<close> the buffers \<open>q.get()\<close> has returned to that thread.
\<close>

record session =
  is_listening :: bool
  session_transcript :: pystr

record run =
  keep_listening :: bool
  final_text :: pystr
  thread_started :: bool
  taken :: "bytes list"

datatype click = Start | Stop | Clear

text \<open>Lines 124 to 127: the session state of a first run.\<close>

definition first_session :: session where
  "first_session = \<lparr>is_listening = False, session_transcript = []\<rparr>"

text \<open>
  \<open>st.button\<close>: a button passed \<open>disabled=True\<close> is taken to return \<open>False\<close>, whatever
  was clicked on the page drawn by the run before; at most one button was clicked.
\<close>

definition st_button :: "bool \<Rightarrow> bool \<Rightarrow> bool" where
  "st_button clicked disabled = (clicked \<and> \<not> disabled)"

text \<open>Lines 19, 20 and 134 to 154: one run of the script up to the buttons.\<close>

definition buttons :: "session \<Rightarrow> click option \<Rightarrow> session \<times> run" where
  "buttons ss c =
     (let g0 = \<lparr>keep_listening = False, final_text = [], thread_started = False, taken = []\<rparr>;
          (ss1, g1) =
            (if st_button (c = Some Start) (is_listening ss)
             then (ss\<lparr>is_listening := True, session_transcript := []\<rparr>,
                   g0\<lparr>keep_listening := True, final_text := [], thread_started := True\<rparr>)
             else (ss, g0));
          (ss2, g2) =
            (if st_button (c = Some Stop) (\<not> is_listening ss1)
             then (ss1\<lparr>is_listening := False\<rparr>, g1\<lparr>keep_listening := False\<rparr>)
             else (ss1, g1))
      in if st_button (c = Some Clear) False
         then (ss2\<lparr>session_transcript := []\<rparr>, g2\<lparr>final_text := []\<rparr>)
         else (ss2, g2))"

text \<open>
  The thread of a run: it tests the \<open>keep_listening\<close> of its run before every buffer and
  appends to the \<open>final_text\<close> of its run. \<open>thread_text\<close> is the value of that run's
  \<open>final_text\<close> once the thread has worked through the buffers it has taken; \<open>rec0\<close> is
  the recognizer of line 16.
\<close>

definition listen_thread ::
  "('m, 's) vosk \<Rightarrow> 's \<Rightarrow> run \<Rightarrow> bytes list \<Rightarrow> pystr \<times> (exn + 's)" where
  "listen_thread V rec0 g q =
     (if keep_listening g then listen_audio V rec0 (final_text g) q else (final_text g, Inr rec0))"

definition thread_text :: "('m, 's) vosk \<Rightarrow> 's \<Rightarrow> run \<Rightarrow> pystr" where
  "thread_text V rec0 g =
     (if thread_started g then fst (listen_thread V rec0 g (taken g)) else final_text g)"

text \<open>
  Lines 157 to 165, one turn of the loop of display: while the session listens and the
  run's own \<open>keep_listening\<close> holds, the script copies \<open>final_text\<close> into the session
  state.
\<close>

definition display :: "session \<Rightarrow> run \<Rightarrow> pystr \<Rightarrow> session" where
  "display ss g text =
     (if is_listening ss \<and> keep_listening g then ss\<lparr>session_transcript := text\<rparr> else ss)"

text \<open>
  The page over time: the session state and the modules of the runs so far, the last
  one being the run whose script executes. What happens is a run of the script (a page
  load, or a click on a button), a turn of the loop of display of the current run, or
  the thread of run \<open>i\<close> taking a buffer from its queue and working through lines 37
  to 42; a buffer for a run without a thread does not arise and changes nothing.
\<close>

record page =
  session :: session
  runs :: "run list"

datatype event = Run "click option" | Poll | Buffer nat bytes

definition first_page :: page where
  "first_page = \<lparr>session = first_session, runs = []\<rparr>"

fun step :: "('m, 's) vosk \<Rightarrow> 's \<Rightarrow> page \<Rightarrow> event \<Rightarrow> page" where
  "step V rec0 pg (Run c) =
     (let (ss, g) = buttons (session pg) c in \<lparr>session = ss, runs = runs pg @ [g]\<rparr>)"
| "step V rec0 pg Poll =
     (if runs pg = [] then pg
      else pg\<lparr>session := display (session pg) (last (runs pg))
                             (thread_text V rec0 (last (runs pg)))\<rparr>)"
| "step V rec0 pg (Buffer i data) =
     (if i < length (runs pg) \<and> thread_started (runs pg ! i)
      then pg\<lparr>runs := (runs pg)[i := (runs pg ! i)\<lparr>taken := taken (runs pg ! i) @ [data]\<rparr>]\<rparr>
      else pg)"

definition page_after :: "('m, 's) vosk \<Rightarrow> 's \<Rightarrow> event list \<Rightarrow> page" where
  "page_after V rec0 events = foldl (step V rec0) first_page events"



section \<open>The notions of the specification\<close>

text \<open>
  The finals a recognizer emits when it is fed the buffers in order: the result read at
  each buffer that \<open>AcceptWaveform\<close> accepts, up to the end of the buffers or to the
  exception that ends the session, and the recognizer left at the end.
\<close>

fun emitted_finals ::
  "('m, 's) vosk \<Rightarrow> 's \<Rightarrow> bytes list \<Rightarrow> result_json list \<times> (exn + 's)" where
  "emitted_finals V rec [] = ([], Inr rec)"
| "emitted_finals V rec (data # q) =
     (case AcceptWaveform V rec data of
        Inl e \<Rightarrow> ([], Inl e)
      | Inr (accepted, rec') \<Rightarrow>
          if accepted then
            (let (result, rec'') = Result V rec';
                 (results, ending) = emitted_finals V rec'' q
             in (result # results, ending))
          else emitted_finals V rec' q)"

text \<open>
  The finals of a file session: those of the loop and the one \<open>FinalResult\<close> returns
  when the source is exhausted.
\<close>

definition file_finals :: "('m, 's) vosk \<Rightarrow> 's \<Rightarrow> bytes list \<Rightarrow> exn + pystr list" where
  "file_finals V rec chunks =
     (case emitted_finals V rec chunks of
        (results, Inl e) \<Rightarrow> Inl e
      | (results, Inr rec') \<Rightarrow> Inr (map get_text (results @ [fst (FinalResult V rec')])))"

text \<open>
  The transcript as the specification words it: every final text once, in order, one
  separator between consecutive segments.
\<close>

definition spec_displayed_text :: "pystr list \<Rightarrow> pystr" where
  "spec_displayed_text finals = join (u '' '') finals"

text \<open>Each text followed by one separator, as the live loops append them.\<close>

definition with_trailing_space :: "pystr list \<Rightarrow> pystr" where
  "with_trailing_space texts = concat (map (\<lambda>t. t @ u '' '') texts)"






text \<open>The properties of a WAV file the fallback checks.\<close>

datatype wav_property = ChannelCount | SampleWidth | Compression | SampleRate

definition mismatched :: "nat \<Rightarrow> wav \<Rightarrow> wav_property set" where
  "mismatched rate w =
     (if nchannels w \<noteq> 1 then {ChannelCount} else {})
     \<union> (if sampwidth w \<noteq> 2 then {SampleWidth} else {})
     \<union> (if comptype w \<noteq> u ''NONE'' then {Compression} else {})
     \<union> (if framerate w \<noteq> rate then {SampleRate} else {})"

section \<open>A recognizer and a platform for the examples\<close>

text \<open>
  A small recognizer: it hears the low byte of a buffer's first sample. 0 is silence,
  a full stop ends the utterance, an exclamation mark makes \<open>AcceptWaveform\<close> raise,
  any other byte is a letter added to the current utterance.
\<close>

definition letter_vosk :: "(unit, pystr) vosk" where
  "letter_vosk =
     \<lparr>KaldiRecognizer = (\<lambda>m rate. Inr []),
      SetWords = (\<lambda>s b. s),
      AcceptWaveform = (\<lambda>s data.
         case data of
           [] \<Rightarrow> Inr (False, s)
         | lo # rest \<Rightarrow>
             if lo = 33 then Inl (PyException ''Failed to process waveform'')
             else if lo = 46 then Inr (True, s)
             else if lo = 0 then Inr (False, s)
             else Inr (False, s @ [unat lo])),
      Result = (\<lambda>s. (Some s, [])),
      PartialResult = (\<lambda>s. Some s),
      FinalResult = (\<lambda>s. (Some s, []))\<rparr>"

text \<open>
  A platform whose decoders read a file of letters: each byte stands for a quarter of a
  second (one chunk) of that sample. Its temporary names are \<open>abcdefgh\<close>, \<open>abcdefgi\<close>
  and so on, and \<open>st.error\<close> and \<open>os.unlink\<close> raise nothing.
\<close>

definition letter_samples :: "bytes \<Rightarrow> int16 list" where
  "letter_samples content = concat (map (\<lambda>b. replicate chunk_size (ucast b)) content)"

definition letter_platform :: "bool \<Rightarrow> wav \<Rightarrow> platform" where
  "letter_platform librosa header =
     \<lparr>LIBROSA_AVAILABLE = librosa,
      splitext = (\<lambda>n. (takeWhile (\<lambda>c. c \<noteq> 46) n, dropWhile (\<lambda>c. c \<noteq> 46) n)),
      gettempdir = u ''/tmp'',
      random_name = (\<lambda>n. u ''abcdefg'' @ [104 + n]),
      librosa_load_int16 = (\<lambda>content rate. Inr (letter_samples content)),
      wave_open = (\<lambda>content. Inr (header\<lparr>frames := content\<rparr>)),
      st_error = (\<lambda>message. None),
      os_unlink = (\<lambda>p. None)\<rparr>"

definition loaded :: "unit VoskSpeechRecognizer" where
  "loaded = \<lparr>model_path = u ''vosk-model-small-hi-0.22'', model = Some (), sample_rate = 16000\<rparr>"

definition upload :: "string \<Rightarrow> audio_file" where
  "upload letters = \<lparr>name = Some (u ''a.wav''), read = Inr (map of_char letters)\<rparr>"

definition closed_upload :: audio_file where
  "closed_upload =
     \<lparr>name = Some (u ''a.wav''),
      read = Inl (PyException ''ValueError: I/O operation on closed file.'')\<rparr>"

definition pcm_header :: "nat \<Rightarrow> nat \<Rightarrow> nat \<Rightarrow> wav" where
  "pcm_header channels width rate =
     \<lparr>nchannels = channels, sampwidth = width, comptype = u ''NONE'', framerate = rate,
      frames = []\<rparr>"

section \<open>The file source\<close>

lemma ceil_div_index:
  fixes c :: nat
  assumes "0 < c" "k < (n + c - 1) div c"
  shows "k * c < n"
proof (rule ccontr)
  assume "\<not> k * c < n"
  then have "n + c - 1 < Suc k * c" using assms(1) by simp
  then have "(n + c - 1) div c < Suc k"
    using assms(1) by (simp only: div_less_iff_less_mult)
  with assms(2) show False by simp
qed

lemma ceil_div_step:
  fixes c :: nat
  assumes "0 < c" "0 < n"
  shows "(n + c - 1) div c = Suc ((n - c + c - 1) div c)"
proof -
  obtain m where n: "n = Suc m" using assms(2) by (cases n) auto
  have "(m + c) div c = Suc (m div c)"
    using assms(1) div_add_self2 [of c m] by simp
  moreover have "(n - c + c - 1) div c = m div c"
  proof (cases "c \<le> n")
    case True
    then show ?thesis using n by simp
  next
    case False
    then have "n - c = 0" "m < c" using n by simp_all
    then show ?thesis using assms(1) by simp
  qed
  ultimately show ?thesis using n by simp
qed

lemma chunk_size_pos: "0 < chunk_size"
  by (simp add: chunk_size_def)

lemma file_chunks_length: "length (file_chunks xs) = (length xs + chunk_size - 1) div chunk_size"
  by (simp add: file_chunks_def range_step_def)

lemma file_chunks_nth:
  "k < length (file_chunks xs) \<Longrightarrow> file_chunks xs ! k = take chunk_size (drop (k * chunk_size) xs)"
  by (simp add: file_chunks_def range_step_def slice_def)

lemma file_chunks_index_bound:
  "k < length (file_chunks xs) \<Longrightarrow> k * chunk_size < length xs"
  unfolding file_chunks_length by (rule ceil_div_index [OF chunk_size_pos])

lemma file_chunks_full:
  "Suc k < length (file_chunks xs) \<Longrightarrow> Suc k * chunk_size < length xs"
  by (rule file_chunks_index_bound)

lemma file_chunks_nil: "file_chunks [] = []"
proof -
  have "length (file_chunks ([] :: 'a list)) = 0"
    unfolding file_chunks_length using chunk_size_pos by simp
  then show ?thesis by simp
qed

lemma file_chunks_length_rec:
  "xs \<noteq> [] \<Longrightarrow> length (file_chunks xs) = Suc (length (file_chunks (drop chunk_size xs)))"
proof -
  assume "xs \<noteq> []"
  then have "0 < length xs" by simp
  then show ?thesis
    unfolding file_chunks_length length_drop by (rule ceil_div_step [OF chunk_size_pos])
qed

lemma file_chunks_rec:
  assumes "xs \<noteq> []"
  shows "file_chunks xs = take chunk_size xs # file_chunks (drop chunk_size xs)"
proof (rule nth_equalityI)
  show "length (file_chunks xs) = length (take chunk_size xs # file_chunks (drop chunk_size xs))"
    using file_chunks_length_rec [OF assms] by simp
next
  fix k assume k: "k < length (file_chunks xs)"
  show "file_chunks xs ! k = (take chunk_size xs # file_chunks (drop chunk_size xs)) ! k"
  proof (cases k)
    case 0
    with k show ?thesis by (simp add: file_chunks_nth)
  next
    case (Suc j)
    with k have j: "j < length (file_chunks (drop chunk_size xs))"
      using file_chunks_length_rec [OF assms] by simp
    have "file_chunks xs ! k = take chunk_size (drop (Suc j * chunk_size) xs)"
      using k Suc by (simp only: file_chunks_nth)
    also have "\<dots> = take chunk_size (drop (j * chunk_size) (drop chunk_size xs))"
      by (simp add: add.commute)
    also have "\<dots> = file_chunks (drop chunk_size xs) ! j"
      using j by (simp only: file_chunks_nth)
    finally show ?thesis using Suc by simp
  qed
qed

lemma concat_file_chunks: "concat (file_chunks xs) = xs"
proof (induction "length xs" arbitrary: xs rule: less_induct)
  case less
  show ?case
  proof (cases "xs = []")
    case True
    then show ?thesis by (simp add: file_chunks_nil)
  next
    case False
    then have "length (drop chunk_size xs) < length xs"
      using chunk_size_pos by simp
    then have "concat (file_chunks (drop chunk_size xs)) = drop chunk_size xs"
      by (rule less)
    then show ?thesis
      by (simp add: file_chunks_rec [OF False])
  qed
qed

lemma pulls_exhausted: "length xs \<le> i \<Longrightarrow> pulls xs i m = replicate m EndOfStream"
  by (induction m) (simp_all add: file_next_def)

lemma file_next_drop:
  "file_next xs (i + chunk_size) = (case file_next (drop chunk_size xs) i of (x, j) \<Rightarrow> (x, j + chunk_size))"
  by (auto simp add: file_next_def slice_def add.commute)

lemma pulls_drop: "pulls xs (i + chunk_size) k = pulls (drop chunk_size xs) i k"
proof (induction k arbitrary: i)
  case 0
  show ?case by simp
next
  case (Suc k)
  show ?case
    by (simp add: file_next_drop Suc split: prod.splits)
qed

lemma pulls_file_chunks:
  "pulls xs 0 (length (file_chunks xs) + m) = map Chunk (file_chunks xs) @ replicate m EndOfStream"
proof (induction "length xs" arbitrary: xs rule: less_induct)
  case less
  show ?case
  proof (cases "xs = []")
    case True
    then show ?thesis by (simp add: file_chunks_nil pulls_exhausted)
  next
    case False
    then have "length (drop chunk_size xs) < length xs"
      using chunk_size_pos by simp
    then have ih: "pulls (drop chunk_size xs) 0 (length (file_chunks (drop chunk_size xs)) + m)
        = map Chunk (file_chunks (drop chunk_size xs)) @ replicate m EndOfStream"
      by (rule less)
    have first: "file_next xs 0 = (Chunk (take chunk_size xs), chunk_size)"
      using False by (simp add: file_next_def slice_def)
    show ?thesis
      using ih pulls_drop [of xs 0] by (simp add: file_chunks_rec [OF False] first)
  qed
qed

text \<open>
  Claim C6. For every decoded sample buffer the file loop visits sequential slices that
  do not overlap: slice \<open>k\<close> is the \<open>chunk_size\<close> samples from index \<open>k * chunk_size\<close>,
  no slice is empty or longer than \<open>chunk_size\<close>, every slice but the last has exactly
  \<open>chunk_size\<close> samples, the slices concatenated are the buffer, and pulling past the
  last slice yields \<open>EndOfStream\<close> for ever.
\<close>

theorem file_source_slices:
  "concat (file_chunks xs) = xs
   \<and> (\<forall>k < length (file_chunks xs).
         file_chunks xs ! k = take chunk_size (drop (k * chunk_size) xs)
         \<and> 0 < length (file_chunks xs ! k) \<and> length (file_chunks xs ! k) \<le> chunk_size
         \<and> (Suc k < length (file_chunks xs) \<longrightarrow> length (file_chunks xs ! k) = chunk_size))
   \<and> pulls xs 0 (length (file_chunks xs) + m)
       = map Chunk (file_chunks xs) @ replicate m EndOfStream"
proof (intro conjI allI impI)
  show "concat (file_chunks xs) = xs" by (rule concat_file_chunks)
next
  fix k assume "k < length (file_chunks xs)"
  then show "file_chunks xs ! k = take chunk_size (drop (k * chunk_size) xs)"
    by (rule file_chunks_nth)
next
  fix k assume k: "k < length (file_chunks xs)"
  then show "0 < length (file_chunks xs ! k)"
    using file_chunks_index_bound [OF k] chunk_size_pos by (simp add: file_chunks_nth)
next
  fix k assume k: "k < length (file_chunks xs)"
  then show "length (file_chunks xs ! k) \<le> chunk_size"
    by (simp add: file_chunks_nth)
next
  fix k assume k: "k < length (file_chunks xs)" and "Suc k < length (file_chunks xs)"
  then have "Suc k * chunk_size < length xs" by (simp only: file_chunks_full)
  then show "length (file_chunks xs ! k) = chunk_size"
    using k by (simp add: file_chunks_nth)
next
  show "pulls xs 0 (length (file_chunks xs) + m)
       = map Chunk (file_chunks xs) @ replicate m EndOfStream"
    by (rule pulls_file_chunks)
qed

theorem file_source_slices_witness:
  "Suc 0 < length (file_chunks (replicate 4001 (0::int16)))
   \<and> length (file_chunks (replicate 4001 (0::int16)) ! 0) = chunk_size
   \<and> length (file_chunks (replicate 4001 (0::int16)) ! 1) \<le> chunk_size
   \<and> concat (file_chunks (replicate 4001 (0::int16))) = replicate 4001 0"
proof -
  let ?xs = "replicate 4001 (0::int16)"
  have len: "length (file_chunks ?xs) = 2"
    by (simp add: file_chunks_length chunk_size_def)
  note th = file_source_slices [of ?xs 0]
  from th have c: "concat (file_chunks ?xs) = ?xs" by (rule conjunct1)
  from th have q: "\<forall>k < length (file_chunks ?xs).
         file_chunks ?xs ! k = take chunk_size (drop (k * chunk_size) ?xs)
         \<and> 0 < length (file_chunks ?xs ! k) \<and> length (file_chunks ?xs ! k) \<le> chunk_size
         \<and> (Suc k < length (file_chunks ?xs) \<longrightarrow> length (file_chunks ?xs ! k) = chunk_size)"
    by (rule conjunct1 [OF conjunct2])
  have k0: "0 < length (file_chunks ?xs)" and k1: "1 < length (file_chunks ?xs)"
    and k01: "Suc 0 < length (file_chunks ?xs)"
    by (simp_all add: len)
  have "length (file_chunks ?xs ! 0) = chunk_size"
    using q [rule_format, of 0] k0 k01 by blast
  moreover have "length (file_chunks ?xs ! 1) \<le> chunk_size"
    using q [rule_format, of 1] k1 by blast
  ultimately show ?thesis using k01 c by blast
qed

section \<open>The recognition loops and the finals they read\<close>

lemma truthy_text_iff: "truthy_text r \<longleftrightarrow> get_text r \<noteq> []"
  by (simp add: truthy_text_def get_text_def split: option.splits)

lemma with_trailing_space_Cons:
  "with_trailing_space (t # ts) = t @ u '' '' @ with_trailing_space ts"
  by (simp add: with_trailing_space_def)

lemma with_trailing_space_Nil: "with_trailing_space [] = []"
  by (simp add: with_trailing_space_def)

lemma listen_audio_emitted:
  "listen_audio V rec ft q =
     (ft @ with_trailing_space (filter (\<lambda>t. t \<noteq> []) (map get_text (fst (emitted_finals V rec q)))),
      snd (emitted_finals V rec q))"
proof (induction q arbitrary: rec ft)
  case Nil
  show ?case by (simp add: with_trailing_space_Nil)
next
  case (Cons data q)
  show ?case
  proof (cases "AcceptWaveform V rec data")
    case (Inl e)
    then show ?thesis by (simp add: with_trailing_space_Nil)
  next
    case (Inr ar)
    obtain accepted rec' where ar: "ar = (accepted, rec')" by (cases ar)
    obtain result rec'' where res: "Result V rec' = (result, rec'')" by (cases "Result V rec'")
    show ?thesis
      using Inr ar res Cons [of rec'' "ft @ get_text result @ u '' ''"] Cons [of rec'' ft]
        Cons [of rec' ft]
      by (simp add: truthy_text_iff with_trailing_space_Cons with_trailing_space_Nil
            split: prod.splits)
  qed
qed

lemma transcribe_loop_emitted:
  "transcribe_loop V rec t chunks =
     (case emitted_finals V rec chunks of
        (rs, Inl e) \<Rightarrow> Inl e
      | (rs, Inr rec') \<Rightarrow> Inr (rec', t @ with_trailing_space (map get_text rs)))"
proof (induction chunks arbitrary: rec t)
  case Nil
  show ?case by (simp add: with_trailing_space_Nil)
next
  case (Cons chunk chunks)
  show ?case
  proof (cases "AcceptWaveform V rec chunk")
    case (Inl e)
    then show ?thesis by simp
  next
    case (Inr ar)
    obtain accepted rec' where ar: "ar = (accepted, rec')" by (cases ar)
    obtain result rec'' where res: "Result V rec' = (result, rec'')" by (cases "Result V rec'")
    show ?thesis
      using Inr ar res Cons [of rec'' "t @ get_text result @ u '' ''"] Cons [of rec' t]
      by (simp add: with_trailing_space_Cons split: prod.splits sum.splits)
  qed
qed

lemma join_snoc: "with_trailing_space ts @ x = join (u '' '') (ts @ [x])"
proof (induction ts)
  case Nil
  show ?case by (simp add: with_trailing_space_Nil)
next
  case (Cons t ts)
  then show ?case
    by (cases "ts @ [x]") (simp_all add: with_trailing_space_Cons)
qed

lemma transcribe_chunks_finals:
  "transcribe_chunks V rec chunks =
     (case file_finals V rec chunks of
        Inl e \<Rightarrow> Inl e
      | Inr finals \<Rightarrow> Inr (strip (spec_displayed_text finals)))"
proof (cases "emitted_finals V rec chunks")
  case (Pair rs ending)
  show ?thesis
  proof (cases ending)
    case (Inl e)
    with Pair show ?thesis
      by (simp add: transcribe_chunks_def transcribe_loop_emitted file_finals_def)
  next
    case (Inr rec')
    obtain fr rec'' where fr: "FinalResult V rec' = (fr, rec'')" by (cases "FinalResult V rec'")
    have "with_trailing_space (map get_text rs) @ get_text fr
            = join (u '' '') (map get_text (rs @ [fr]))"
      using join_snoc [of "map get_text rs" "get_text fr"] by simp
    with Pair Inr fr show ?thesis
      by (simp add: transcribe_chunks_def transcribe_loop_emitted file_finals_def
            spec_displayed_text_def)
  qed
qed

section \<open>Evaluating the example recognizer\<close>

lemma letter_samples_Nil: "letter_samples [] = []"
  by (simp add: letter_samples_def)

lemma letter_samples_Cons:
  "letter_samples (b # bs) = replicate chunk_size (ucast b) @ letter_samples bs"
  by (simp add: letter_samples_def)

lemma file_chunks_letter_samples:
  "file_chunks (letter_samples bs) = map (\<lambda>b. replicate chunk_size (ucast b)) bs"
proof (induction bs)
  case Nil
  show ?case by (simp add: letter_samples_Nil file_chunks_nil)
next
  case (Cons b bs)
  have ne: "letter_samples (b # bs) \<noteq> []"
    using chunk_size_pos by (simp add: letter_samples_Cons)
  show ?case
    using file_chunks_rec [OF ne] Cons by (simp add: letter_samples_Cons)
qed

lemma tobytes_chunk_hd:
  "tobytes (replicate chunk_size w) =
     ucast w # ucast (drop_bit 8 w) # tobytes (replicate (chunk_size - 1) w)"
proof -
  have "chunk_size = Suc (chunk_size - 1)" using chunk_size_pos by simp
  then have "replicate chunk_size w = w # replicate (chunk_size - 1) w"
    by (metis replicate_Suc)
  then have "tobytes (replicate chunk_size w) = tobytes (w # replicate (chunk_size - 1) w)"
    by (rule arg_cong)
  then show ?thesis by (simp add: tobytes_def)
qed

lemma letter_vosk_accept:
  "AcceptWaveform letter_vosk s (tobytes (replicate chunk_size w)) =
     (if (ucast w :: 8 word) = 33 then Inl (PyException ''Failed to process waveform'')
      else if (ucast w :: 8 word) = 46 then Inr (True, s)
      else if (ucast w :: 8 word) = 0 then Inr (False, s)
      else Inr (False, s @ [unat (ucast w :: 8 word)]))"
  by (simp add: letter_vosk_def tobytes_chunk_hd)

lemma letter_vosk_simps:
  "Result letter_vosk s = (Some s, [])"
  "FinalResult letter_vosk s = (Some s, [])"
  "PartialResult letter_vosk s = Some s"
  "KaldiRecognizer letter_vosk m r = Inr []"
  "SetWords letter_vosk s b = s"
  by (simp_all add: letter_vosk_def)

section \<open>The transcript of a session\<close>

text \<open>
  Claim C1, as stated, at a concrete recording: the letters \<open>a..b.\<close> make the finals
  \<open>a\<close>, the empty text, \<open>b\<close> and the empty text of \<open>FinalResult\<close>. The method returns
  \<open>a  b\<close>, which is neither these four texts joined by single spaces (that ends in a
  space) nor the two non-empty ones joined by one space.
\<close>

theorem displayed_text_counterexample:
  "file_finals letter_vosk [] (map tobytes (file_chunks (letter_samples (map of_char ''a..b.''))))
     = Inr [u ''a'', [], u ''b'', []]
   \<and> recognize letter_vosk () 16000 (letter_samples (map of_char ''a..b.'')) = Inr (u ''a  b'')
   \<and> recognize letter_vosk () 16000 (letter_samples (map of_char ''a..b.''))
       \<noteq> Inr (spec_displayed_text [u ''a'', [], u ''b'', []])
   \<and> recognize letter_vosk () 16000 (letter_samples (map of_char ''a..b.''))
       \<noteq> Inr (spec_displayed_text [u ''a'', u ''b''])"
  by (simp add: recognize_def file_chunks_letter_samples transcribe_chunks_def file_finals_def
      letter_vosk_accept letter_vosk_simps get_text_def u_def strip_def isspace_def
      spec_displayed_text_def)

text \<open>
  Claim C1, amended. The text a file session returns is \<open>strip\<close> of the final texts (the
  result read at every accepted chunk and the one of \<open>FinalResult\<close>, empty ones included)
  in emission order, each once, with one space between consecutive finals; an exception
  of the recognizer ends the session without a transcript.
\<close>

theorem displayed_text_stripped_join:
  "transcribe_chunks V rec chunks =
     (case file_finals V rec chunks of
        Inl e \<Rightarrow> Inl e
      | Inr finals \<Rightarrow> Inr (strip (spec_displayed_text finals)))"
  by (rule transcribe_chunks_finals)

theorem displayed_text_stripped_join_witness:
  "transcribe_chunks letter_vosk []
      [tobytes (replicate chunk_size 97), tobytes (replicate chunk_size 46),
       tobytes (replicate chunk_size 98)]
     = Inr (strip (spec_displayed_text [u ''a'', u ''b'']))"
  using displayed_text_stripped_join [of letter_vosk "[]"
      "[tobytes (replicate chunk_size 97), tobytes (replicate chunk_size 46),
        tobytes (replicate chunk_size 98)]"]
  by (simp add: file_finals_def letter_vosk_accept letter_vosk_simps get_text_def u_def)

text \<open>
  Claim C10. In the live loop of \<open>Hindi_STT.py\<close> the transcript after any buffers is the
  transcript before, followed by the non-empty final texts in order, each with one
  trailing space; a buffer accepted with an empty text leaves it unchanged.
\<close>

theorem listen_audio_transcript:
  "fst (listen_audio V rec ft q)
     = ft @ with_trailing_space
              (filter (\<lambda>t. t \<noteq> []) (map get_text (fst (emitted_finals V rec q))))
   \<and> (AcceptWaveform V rec data = Inr (True, rec') \<longrightarrow> Result V rec' = (r, rec'') \<longrightarrow>
        get_text r = [] \<longrightarrow>
        listen_audio V rec ft (data # q) = listen_audio V rec'' ft q)"
proof (rule conjI)
  show "fst (listen_audio V rec ft q)
     = ft @ with_trailing_space
              (filter (\<lambda>t. t \<noteq> []) (map get_text (fst (emitted_finals V rec q))))"
    by (simp add: listen_audio_emitted)
next
  show "AcceptWaveform V rec data = Inr (True, rec') \<longrightarrow> Result V rec' = (r, rec'') \<longrightarrow>
        get_text r = [] \<longrightarrow>
        listen_audio V rec ft (data # q) = listen_audio V rec'' ft q"
    by (simp add: truthy_text_iff)
qed

theorem listen_audio_transcript_witness:
  "AcceptWaveform letter_vosk [] (tobytes (replicate chunk_size 46)) = Inr (True, [])
   \<and> Result letter_vosk [] = (Some [], [])
   \<and> get_text (Some []) = []
   \<and> listen_audio letter_vosk [] (u ''x '')
        [tobytes (replicate chunk_size 46), tobytes (replicate chunk_size 97),
         tobytes (replicate chunk_size 46)]
       = listen_audio letter_vosk [] (u ''x '')
          [tobytes (replicate chunk_size 97), tobytes (replicate chunk_size 46)]
   \<and> fst (listen_audio letter_vosk [] (u ''x '')
        [tobytes (replicate chunk_size 46), tobytes (replicate chunk_size 97),
         tobytes (replicate chunk_size 46)]) = u ''x a ''"
proof -
  have a: "AcceptWaveform letter_vosk [] (tobytes (replicate chunk_size 46)) = Inr (True, [])"
    by (simp add: letter_vosk_accept)
  have b: "Result letter_vosk [] = (Some [], [])" by (simp add: letter_vosk_simps)
  have c: "get_text (Some []) = []" by (simp add: get_text_def)
  note th = listen_audio_transcript [of letter_vosk "[]" "u ''x ''"
      "[tobytes (replicate chunk_size 97), tobytes (replicate chunk_size 46)]"
      "tobytes (replicate chunk_size 46)" "[]" "Some []" "[]"]
  from th a b c have d: "listen_audio letter_vosk [] (u ''x '')
        [tobytes (replicate chunk_size 46), tobytes (replicate chunk_size 97),
         tobytes (replicate chunk_size 46)]
       = listen_audio letter_vosk [] (u ''x '')
          [tobytes (replicate chunk_size 97), tobytes (replicate chunk_size 46)]"
    by blast
  from th have e: "fst (listen_audio letter_vosk [] (u ''x '')
          [tobytes (replicate chunk_size 97), tobytes (replicate chunk_size 46)]) = u ''x a ''"
    by (simp add: letter_vosk_accept letter_vosk_simps get_text_def u_def
          with_trailing_space_def)
  from a b c d e show ?thesis by simp
qed

section \<open>Stopping a session\<close>

lemma transcribe_chunks_flush:
  "transcribe_chunks V rec chunks =
     (case emitted_finals V rec chunks of
        (rs, Inl e) \<Rightarrow> Inl e
      | (rs, Inr rec') \<Rightarrow>
          Inr (strip (with_trailing_space (map get_text rs)
                      @ get_text (fst (FinalResult V rec')))))"
  by (simp add: transcribe_chunks_def transcribe_loop_emitted split: prod.splits sum.splits)

subsection \<open>The page of \<open>Hindi_STT.py\<close> over time\<close>





lemma page_after_append:
  "page_after V rec0 (events @ events') = foldl (step V rec0) (page_after V rec0 events) events'"
  by (simp add: page_after_def)



















section \<open>Start and stop\<close>




section \<open>What \<open>transcribe_audio_file\<close> returns and leaves on disk\<close>

lemma digits_pos:
  "0 < k \<Longrightarrow> digits k n = (if n < 10 then [48 + n] else digits (k - 1) (n div 10) @ [48 + n mod 10])"
  by (cases k) simp_all

lemma decode_audio_content:
  "fs p = Some c \<Longrightarrow> fs' p' = Some c \<Longrightarrow> decode_audio P self fs p = decode_audio P self fs' p'"
  by (simp add: decode_audio_def)

subsection \<open>The temporary file\<close>

lemma temp_candidates_not_empty: "p \<in> set (temp_candidates P suffix) \<Longrightarrow> p \<noteq> []"
  by (auto simp add: temp_candidates_def u_def)

lemma temp_candidates_first:
  "temp_candidates P suffix
     = (gettempdir P @ u ''/tmp'' @ random_name P 0 @ suffix)
       # map (\<lambda>n. gettempdir P @ u ''/tmp'' @ random_name P n @ suffix) [Suc 0 ..< TMP_MAX]"
proof -
  have "0 < TMP_MAX" by (simp add: TMP_MAX_def)
  then have "[0 ..< TMP_MAX] = 0 # [Suc 0 ..< TMP_MAX]" by (rule upt_conv_Cons)
  then show ?thesis by (simp add: temp_candidates_def)
qed

lemma NamedTemporaryFile_created:
  assumes "NamedTemporaryFile P fs suffix = Inr (p, fs1)"
  shows "p \<noteq> [] \<and> fs p = None \<and> fs1 = fs(p \<mapsto> [])"
proof -
  from assms have f: "find (\<lambda>p. fs p = None) (temp_candidates P suffix) = Some p"
    and fs1: "fs1 = fs(p \<mapsto> [])"
    by (auto simp add: NamedTemporaryFile_def split: option.splits)
  from f have "p \<in> set (temp_candidates P suffix)" and "fs p = None"
    by (auto simp add: find_Some_iff)
  with fs1 temp_candidates_not_empty show ?thesis by blast
qed


lemma NamedTemporaryFile_first:
  "fs (gettempdir P @ u ''/tmp'' @ random_name P 0 @ suffix) = None \<Longrightarrow>
   NamedTemporaryFile P fs suffix
     = Inr (gettempdir P @ u ''/tmp'' @ random_name P 0 @ suffix,
            fs(gettempdir P @ u ''/tmp'' @ random_name P 0 @ suffix \<mapsto> []))"
  by (simp add: NamedTemporaryFile_def temp_candidates_first)

subsection \<open>The body of \<open>try\<close>\<close>

lemma try_body_no_name:
  "NamedTemporaryFile P fs (file_extension P f) = Inl e \<Longrightarrow>
   try_body V P self m fs f = (None, fs, Inl e)"
  by (simp add: try_body_def)

lemma try_body_read_raises:
  "NamedTemporaryFile P fs (file_extension P f) = Inr (p, fs1) \<Longrightarrow> read f = Inl e \<Longrightarrow>
   try_body V P self m fs f = (None, fs(p \<mapsto> []), Inl e)"
  using NamedTemporaryFile_created [of P fs "file_extension P f" p fs1]
  by (simp add: try_body_def)

lemma try_body_read:
  assumes "NamedTemporaryFile P fs (file_extension P f) = Inr (p, fs1)" "read f = Inr content"
  shows "try_body V P self m fs f =
           (Some p, fs(p \<mapsto> content),
            case decode_audio P self [[] \<mapsto> content] [] of
              Inl e \<Rightarrow> Inl e
            | Inr (Inl message) \<Rightarrow> Inr message
            | Inr (Inr audio_int16) \<Rightarrow> recognize V m (sample_rate self) audio_int16)"
proof -
  have "decode_audio P self (fs1(p \<mapsto> content)) p = decode_audio P self [[] \<mapsto> content] []"
    by (rule decode_audio_content) simp_all
  with assms NamedTemporaryFile_created [OF assms(1)] show ?thesis
    by (simp add: try_body_def Let_def)
qed

lemma try_body_outcome:
  "snd (snd (try_body V P self m fs f)) =
     (case NamedTemporaryFile P fs (file_extension P f) of
        Inl e \<Rightarrow> Inl e
      | Inr created \<Rightarrow>
          (case read f of
             Inl e \<Rightarrow> Inl e
           | Inr content \<Rightarrow>
               (case decode_audio P self [[] \<mapsto> content] [] of
                  Inl e \<Rightarrow> Inl e
                | Inr (Inl message) \<Rightarrow> Inr message
                | Inr (Inr audio_int16) \<Rightarrow> recognize V m (sample_rate self) audio_int16)))"
proof (cases "NamedTemporaryFile P fs (file_extension P f)")
  case (Inl e)
  then show ?thesis by (simp add: try_body_no_name)
next
  case (Inr created)
  obtain p fs1 where c: "created = (p, fs1)" by (cases created)
  show ?thesis
  proof (cases "read f")
    case (Inl e)
    with Inr c show ?thesis by (simp add: try_body_read_raises)
  next
    case r: (Inr content)
    from Inr c have "NamedTemporaryFile P fs (file_extension P f) = Inr (p, fs1)" by simp
    from try_body_read [OF this r, of V self m] Inr r show ?thesis by simp
  qed
qed

subsection \<open>Where an exception of the body comes from\<close>






subsection \<open>\<open>except\<close> and \<open>finally\<close>\<close>

lemma except_Exception_quiet:
  assumes "\<And>message. st_error P message = None"
  shows "except_Exception P outcome =
     (case outcome of
        Inr s \<Rightarrow> Inr s
      | Inl (PyBaseException x) \<Rightarrow> Inl (PyBaseException x)
      | Inl (PyException x) \<Rightarrow> Inr (u ''Error during transcription.''))"
  using assms by (simp add: except_Exception_def split: sum.splits exn.splits)


lemma finally_unlink_quiet:
  assumes "\<And>p. os_unlink P p = None"
  shows "finally_unlink P tmp_file_path fs leaving =
     (leaving, case tmp_file_path of None \<Rightarrow> fs | Some p \<Rightarrow> if p = [] then fs else fs(p := None))"
  using assms by (auto simp add: finally_unlink_def split: option.splits)


lemma transcribe_audio_file_returned:
  assumes "\<And>p. os_unlink P p = None" "model self = Some m"
  shows "fst (transcribe_audio_file V P self fs f)
           = except_Exception P (snd (snd (try_body V P self m fs f)))"
  using assms
  by (simp add: transcribe_audio_file_def finally_unlink_quiet split: prod.splits)

lemma transcribe_audio_file_fs:
  assumes "\<And>p. os_unlink P p = None" "model self = Some m"
  shows "snd (transcribe_audio_file V P self fs f) =
     (case NamedTemporaryFile P fs (file_extension P f) of
        Inl e \<Rightarrow> fs
      | Inr (p, fs1) \<Rightarrow> (case read f of Inl e \<Rightarrow> fs(p \<mapsto> []) | Inr content \<Rightarrow> fs))"
proof (cases "NamedTemporaryFile P fs (file_extension P f)")
  case (Inl e)
  with assms show ?thesis
    by (simp add: transcribe_audio_file_def finally_unlink_quiet try_body_no_name)
next
  case (Inr created)
  obtain p fs1 where c: "created = (p, fs1)" by (cases created)
  with Inr have n: "NamedTemporaryFile P fs (file_extension P f) = Inr (p, fs1)" by simp
  from NamedTemporaryFile_created [OF n] have p: "p \<noteq> []" "fs p = None" by simp_all
  show ?thesis
  proof (cases "read f")
    case (Inl e)
    with assms n show ?thesis
      by (simp add: transcribe_audio_file_def finally_unlink_quiet try_body_read_raises)
  next
    case r: (Inr content)
    from p have "(fs(p \<mapsto> content))(p := None) = fs" by auto
    with assms n r p show ?thesis
      by (simp add: transcribe_audio_file_def finally_unlink_quiet try_body_read)
  qed
qed

lemma mismatched_frames: "mismatched r (w\<lparr>frames := c\<rparr>) = mismatched r w"
  by (simp add: mismatched_def)

lemma letter_platform_simps:
  "LIBROSA_AVAILABLE (letter_platform l h) = l"
  "splitext (letter_platform l h) n = (takeWhile (\<lambda>c. c \<noteq> 46) n, dropWhile (\<lambda>c. c \<noteq> 46) n)"
  "gettempdir (letter_platform l h) = u ''/tmp''"
  "random_name (letter_platform l h) k = u ''abcdefg'' @ [104 + k]"
  "librosa_load_int16 (letter_platform l h) c r = Inr (letter_samples c)"
  "wave_open (letter_platform l h) c = Inr (h\<lparr>frames := c\<rparr>)"
  "st_error (letter_platform l h) message = None"
  "os_unlink (letter_platform l h) p = None"
  by (simp_all add: letter_platform_def)

lemma tmp_file_example:
  "NamedTemporaryFile (letter_platform l h) Map.empty
      (file_extension (letter_platform l h) (upload s))
     = Inr (u ''/tmp/tmpabcdefgh.wav'', [u ''/tmp/tmpabcdefgh.wav'' \<mapsto> []])"
  "NamedTemporaryFile (letter_platform l h) Map.empty
      (file_extension (letter_platform l h) closed_upload)
     = Inr (u ''/tmp/tmpabcdefgh.wav'', [u ''/tmp/tmpabcdefgh.wav'' \<mapsto> []])"
  by (simp_all add: NamedTemporaryFile_first file_extension_def letter_platform_simps
      upload_def closed_upload_def u_def)

lemma letter_returned:
  "fst (transcribe_audio_file V (letter_platform l h) loaded fs f)
     = except_Exception (letter_platform l h)
         (snd (snd (try_body V (letter_platform l h) loaded () fs f)))"
  by (rule transcribe_audio_file_returned) (simp_all add: letter_platform_simps loaded_def)

lemma letter_except:
  "except_Exception (letter_platform l h) outcome =
     (case outcome of
        Inr s \<Rightarrow> Inr s
      | Inl (PyBaseException x) \<Rightarrow> Inl (PyBaseException x)
      | Inl (PyException x) \<Rightarrow> Inr (u ''Error during transcription.''))"
  by (rule except_Exception_quiet) (simp add: letter_platform_simps)

lemma loaded_simps:
  "model loaded = Some ()"
  "sample_rate loaded = 16000"
  by (simp_all add: loaded_def)

lemma upload_simps:
  "read (upload s) = Inr (map of_char s)"
  "name (upload s) = Some (u ''a.wav'')"
  by (simp_all add: upload_def)

lemma pcm_header_simps:
  "nchannels (pcm_header c w r) = c"
  "sampwidth (pcm_header c w r) = w"
  "comptype (pcm_header c w r) = u ''NONE''"
  "framerate (pcm_header c w r) = r"
  "frames (pcm_header c w r) = []"
  by (simp_all add: pcm_header_def)

section \<open>The format check without librosa\<close>

lemma fallback_unsupported:
  assumes "\<not> LIBROSA_AVAILABLE P" "fs p = Some content" "wave_open P content = Inr w"
    and "mismatched (sample_rate self) w \<inter> {ChannelCount, SampleWidth, Compression} \<noteq> {}"
  shows "decode_audio P self fs p = Inr (Inl unsupported_wav)"
  using assms by (auto simp add: decode_audio_def mismatched_def split: if_splits)

lemma fallback_wrong_rate:
  assumes "\<not> LIBROSA_AVAILABLE P" "fs p = Some content" "wave_open P content = Inr w"
    and "mismatched (sample_rate self) w = {SampleRate}"
  shows "decode_audio P self fs p = Inr (Inl (wrong_rate (sample_rate self) (framerate w)))"
  using assms by (auto simp add: decode_audio_def mismatched_def split: if_splits)

lemma fallback_accepts:
  assumes "\<not> LIBROSA_AVAILABLE P" "fs p = Some content" "wave_open P content = Inr w"
    and "mismatched (sample_rate self) w = {}"
  shows "decode_audio P self fs p =
           (case frombuffer (frames w) of Inl e \<Rightarrow> Inl e | Inr a \<Rightarrow> Inr (Inr a))"
  using assms by (auto simp add: decode_audio_def mismatched_def split: if_splits)

text \<open>
  Claim C4, as stated, at concrete files: without librosa a stereo 16-bit file and a
  mono 8-bit file are refused with the same message, which therefore does not name the
  property that mismatches; and a stereo file at 8000 Hz is refused with that message
  too, which says nothing of its sample rate.
\<close>

theorem format_error_counterexample:
  "fst (transcribe_audio_file letter_vosk (letter_platform False (pcm_header 2 2 16000)) loaded
         Map.empty (upload ''a'')) = Inr unsupported_wav
   \<and> mismatched 16000 (pcm_header 2 2 16000) = {ChannelCount}
   \<and> fst (transcribe_audio_file letter_vosk (letter_platform False (pcm_header 1 1 16000)) loaded
         Map.empty (upload ''a'')) = Inr unsupported_wav
   \<and> mismatched 16000 (pcm_header 1 1 16000) = {SampleWidth}
   \<and> fst (transcribe_audio_file letter_vosk (letter_platform False (pcm_header 2 2 8000)) loaded
         Map.empty (upload ''a'')) = Inr unsupported_wav
   \<and> SampleRate \<in> mismatched 16000 (pcm_header 2 2 8000)"
  by (simp add: letter_returned letter_except try_body_outcome tmp_file_example decode_audio_def
      letter_platform_simps loaded_simps upload_simps pcm_header_simps mismatched_def)

text \<open>
  Claim C4, amended. Without librosa a WAV file that \<open>wave.open\<close> reads is accepted only
  if it is mono, two bytes wide, uncompressed and at the recognizer's rate. A file that
  is not mono, not two bytes wide or compressed is refused with the one message
  \<open>unsupported_wav\<close>, whatever its rate; a file whose only mismatch is the rate is
  refused with \<open>wrong_rate\<close>, which prints the required and the actual rate.
\<close>

theorem fallback_format_check:
  assumes "\<not> LIBROSA_AVAILABLE P" "fs p = Some content" "wave_open P content = Inr w"
  shows "(mismatched (sample_rate self) w = {} \<longrightarrow>
            decode_audio P self fs p =
              (case frombuffer (frames w) of Inl e \<Rightarrow> Inl e | Inr a \<Rightarrow> Inr (Inr a)))
       \<and> (mismatched (sample_rate self) w \<inter> {ChannelCount, SampleWidth, Compression} \<noteq> {} \<longrightarrow>
            decode_audio P self fs p = Inr (Inl unsupported_wav))
       \<and> (mismatched (sample_rate self) w = {SampleRate} \<longrightarrow>
            decode_audio P self fs p
              = Inr (Inl (wrong_rate (sample_rate self) (framerate w))))"
  using assms fallback_accepts [of P fs p content w self]
    fallback_unsupported [of P fs p content w self] fallback_wrong_rate [of P fs p content w self]
  by blast

theorem fallback_format_check_witness:
  "decode_audio (letter_platform False (pcm_header 1 2 8000)) loaded
       [u ''f.wav'' \<mapsto> [1, 0]] (u ''f.wav'')
     = Inr (Inl (u ''Error: Audio must be 16000Hz. This file is 8000Hz.''))
   \<and> decode_audio (letter_platform False (pcm_header 1 2 16000)) loaded
       [u ''f.wav'' \<mapsto> [1, 0]] (u ''f.wav'') = Inr (Inr [1])
   \<and> decode_audio (letter_platform False (pcm_header 2 2 16000)) loaded
       [u ''f.wav'' \<mapsto> [1, 0]] (u ''f.wav'') = Inr (Inl unsupported_wav)"
proof -
  have l: "\<not> LIBROSA_AVAILABLE (letter_platform False h)" for h
    by (simp add: letter_platform_simps)
  have f: "[u ''f.wav'' \<mapsto> [1, 0 :: 8 word]] (u ''f.wav'') = Some [1, 0]" by simp
  have w: "wave_open (letter_platform False h) [1, 0] = Inr (h\<lparr>frames := [1, 0]\<rparr>)" for h
    by (simp add: letter_platform_simps)
  have m1: "mismatched (sample_rate loaded) (pcm_header 1 2 8000\<lparr>frames := [1, 0]\<rparr>) = {SampleRate}"
    by (simp add: mismatched_def pcm_header_def loaded_def)
  have m2: "mismatched (sample_rate loaded) (pcm_header 1 2 16000\<lparr>frames := [1, 0]\<rparr>) = {}"
    by (simp add: mismatched_def pcm_header_def loaded_def)
  have m3: "mismatched (sample_rate loaded) (pcm_header 2 2 16000\<lparr>frames := [1, 0]\<rparr>)
              \<inter> {ChannelCount, SampleWidth, Compression} \<noteq> {}"
    by (simp add: mismatched_def pcm_header_def loaded_def)
  have r: "wrong_rate (sample_rate loaded) (framerate (pcm_header 1 2 8000\<lparr>frames := [1, 0]\<rparr>))
      = u ''Error: Audio must be 16000Hz. This file is 8000Hz.''"
    by (simp add: wrong_rate_def str_nat_def digits_pos loaded_def pcm_header_def u_def)
  have b: "(case frombuffer (frames (pcm_header 1 2 16000\<lparr>frames := [1, 0]\<rparr>)) of
              Inl e \<Rightarrow> Inl e | Inr a \<Rightarrow> Inr (Inr a)) = Inr (Inr [1 :: int16])"
    by (simp add: word_cat_eq)
  from l f w fallback_format_check [of "letter_platform False (pcm_header 1 2 8000)"
      "[u ''f.wav'' \<mapsto> [1, 0]]" "u ''f.wav''" "[1, 0]"
      "pcm_header 1 2 8000\<lparr>frames := [1, 0]\<rparr>" loaded] m1 r
  have a1: "decode_audio (letter_platform False (pcm_header 1 2 8000)) loaded
       [u ''f.wav'' \<mapsto> [1, 0]] (u ''f.wav'')
     = Inr (Inl (u ''Error: Audio must be 16000Hz. This file is 8000Hz.''))"
    by simp
  from l f w fallback_format_check [of "letter_platform False (pcm_header 1 2 16000)"
      "[u ''f.wav'' \<mapsto> [1, 0]]" "u ''f.wav''" "[1, 0]"
      "pcm_header 1 2 16000\<lparr>frames := [1, 0]\<rparr>" loaded] m2 b
  have a2: "decode_audio (letter_platform False (pcm_header 1 2 16000)) loaded
       [u ''f.wav'' \<mapsto> [1, 0]] (u ''f.wav'') = Inr (Inr [1])"
    by simp
  from l f w fallback_format_check [of "letter_platform False (pcm_header 2 2 16000)"
      "[u ''f.wav'' \<mapsto> [1, 0]]" "u ''f.wav''" "[1, 0]"
      "pcm_header 2 2 16000\<lparr>frames := [1, 0]\<rparr>" loaded] m3
  have a3: "decode_audio (letter_platform False (pcm_header 2 2 16000)) loaded
       [u ''f.wav'' \<mapsto> [1, 0]] (u ''f.wav'') = Inr (Inl unsupported_wav)"
    by blast
  from a1 a2 a3 show ?thesis by simp
qed

section \<open>Errors in band\<close>


lemma except_Exception_Inr: "except_Exception P (Inr s) = Inr s"
  by (simp add: except_Exception_def)

lemma unsupported_file_outcome:
  assumes "\<not> LIBROSA_AVAILABLE P"
    "NamedTemporaryFile P fs (file_extension P f) = Inr created" "read f = Inr content"
    "wave_open P content = Inr w" "mismatched (sample_rate self) w \<noteq> {}"
  shows "snd (snd (try_body V P self m fs f)) = Inr unsupported_wav
       \<or> snd (snd (try_body V P self m fs f)) = Inr (wrong_rate (sample_rate self) (framerate w))"
  using assms
  by (auto simp add: try_body_outcome decode_audio_def mismatched_def split: if_splits)

lemma unsupported_file_returned:
  assumes "\<And>p. os_unlink P p = None" "model self = Some m" "\<not> LIBROSA_AVAILABLE P"
    "NamedTemporaryFile P fs (file_extension P f) = Inr created" "read f = Inr content"
    "wave_open P content = Inr w" "mismatched (sample_rate self) w \<noteq> {}"
  shows "fst (transcribe_audio_file V P self fs f) = Inr unsupported_wav
       \<or> fst (transcribe_audio_file V P self fs f)
            = Inr (wrong_rate (sample_rate self) (framerate w))"
  using unsupported_file_outcome [OF assms(3-7), of V m]
    transcribe_audio_file_returned [of P self m V fs f, OF assms(1,2)]
  by (auto simp add: except_Exception_Inr)

lemma exception_returned:
  assumes "\<And>message. st_error P message = None" "\<And>p. os_unlink P p = None"
    "model self = Some m" "snd (snd (try_body V P self m fs f)) = Inl (PyException x)"
  shows "fst (transcribe_audio_file V P self fs f) = Inr (u ''Error during transcription.'')"
  using transcribe_audio_file_returned [of P self m V fs f, OF assms(2,3)]
    except_Exception_quiet [of P "Inl (PyException x)", OF assms(1)] assms(4)
  by simp

lemma base_exception_raised:
  assumes "\<And>p. os_unlink P p = None"
    "model self = Some m" "snd (snd (try_body V P self m fs f)) = Inl (PyBaseException x)"
  shows "fst (transcribe_audio_file V P self fs f) = Inl (PyBaseException x)"
  using transcribe_audio_file_returned [of P self m V fs f, OF assms(1,2)] assms(3)
  by (simp add: except_Exception_def)






section \<open>The temporary file\<close>

text \<open>
  When \<open>read()\<close> succeeds, \<open>tmp_file_path\<close> is set and \<open>finally\<close> removes the file on
  every way out of the body, if \<open>os.unlink\<close> does not raise: the file system is as it
  was before the call.
\<close>

lemma temp_file_removed_after_read:
  assumes "\<And>p. os_unlink P p = None" "model self = Some m" "read f = Inr content"
  shows "snd (transcribe_audio_file V P self fs f) = fs"
  using transcribe_audio_file_fs [of P self m V fs f, OF assms(1,2)] assms(3)
  by (simp split: sum.splits prod.splits)

lemma letter_fs:
  "snd (transcribe_audio_file V (letter_platform l h) loaded fs f) =
     (case NamedTemporaryFile (letter_platform l h) fs (file_extension (letter_platform l h) f) of
        Inl e \<Rightarrow> fs
      | Inr (p, fs1) \<Rightarrow> (case read f of Inl e \<Rightarrow> fs(p \<mapsto> []) | Inr content \<Rightarrow> fs))"
  by (rule transcribe_audio_file_fs) (simp_all add: letter_platform_simps loaded_def)

text \<open>
  Claim C9 fails when \<open>audio_file.read()\<close> raises: the temporary file exists already,
  \<open>tmp_file_path\<close> is still \<open>None\<close>, \<open>finally\<close> removes nothing, and the empty file
  stays on a disk that did not hold it before.
\<close>

theorem temp_file_left_behind:
  "Map.empty (u ''/tmp/tmpabcdefgh.wav'') = (None :: bytes option)
   \<and> fst (transcribe_audio_file letter_vosk (letter_platform True (pcm_header 1 2 16000)) loaded
         Map.empty closed_upload) = Inr (u ''Error during transcription.'')
   \<and> snd (transcribe_audio_file letter_vosk (letter_platform True (pcm_header 1 2 16000)) loaded
         Map.empty closed_upload) (u ''/tmp/tmpabcdefgh.wav'') = Some []"
proof -
  have r: "read closed_upload = Inl (PyException ''ValueError: I/O operation on closed file.'')"
    by (simp add: closed_upload_def)
  show ?thesis
    by (simp add: letter_returned letter_except letter_fs try_body_outcome tmp_file_example r)
qed

section \<open>A session that aborts\<close>

lemma transcribe_chunks_aborts:
  "snd (emitted_finals V rec chunks) = Inl e \<Longrightarrow> transcribe_chunks V rec chunks = Inl e"
  by (cases "emitted_finals V rec chunks") (simp add: transcribe_chunks_flush)

lemma transcribe_button_stores:
  "fst (transcribe_button V P st fs f)
     = (case fst (transcribe_audio_file V P (vosk_recognizer st) fs f) of
          Inl e \<Rightarrow> Inl e
        | Inr transcript \<Rightarrow> Inr (st\<lparr>vosk_transcript := transcript\<rparr>))"
  by (simp add: transcribe_button_def split: prod.splits sum.splits)

text \<open>
  Claim C7, as stated, at a concrete file session: the final \<open>a\<close> has been emitted when
  the third chunk raises; the method returns the error string and \<open>main\<close> stores it as
  the transcript, which holds neither \<open>a\<close> nor the text it held before.
\<close>

theorem aborted_session_counterexample:
  "emitted_finals letter_vosk [] (map tobytes (file_chunks (letter_samples (map of_char ''a.!''))))
     = ([Some (u ''a'')], Inl (PyException ''Failed to process waveform''))
   \<and> fst (transcribe_button letter_vosk (letter_platform True (pcm_header 1 2 16000))
         \<lparr>vosk_recognizer = loaded, vosk_transcript = u ''earlier text''\<rparr> Map.empty
         (upload ''a.!''))
       = Inr \<lparr>vosk_recognizer = loaded, vosk_transcript = u ''Error during transcription.''\<rparr>"
proof (intro conjI)
  show "emitted_finals letter_vosk []
        (map tobytes (file_chunks (letter_samples (map of_char ''a.!''))))
     = ([Some (u ''a'')], Inl (PyException ''Failed to process waveform''))"
    by (simp add: file_chunks_letter_samples letter_vosk_accept letter_vosk_simps u_def)
next
  show "fst (transcribe_button letter_vosk (letter_platform True (pcm_header 1 2 16000))
         \<lparr>vosk_recognizer = loaded, vosk_transcript = u ''earlier text''\<rparr> Map.empty
         (upload ''a.!''))
       = Inr \<lparr>vosk_recognizer = loaded, vosk_transcript = u ''Error during transcription.''\<rparr>"
    by (simp add: transcribe_button_stores letter_returned letter_except try_body_outcome
        tmp_file_example upload_simps decode_audio_def letter_platform_simps loaded_simps
        recognize_def file_chunks_letter_samples transcribe_chunks_def letter_vosk_accept
        letter_vosk_simps)
qed

text \<open>
  Claim C7, amended. In the live loop an exception leaves \<open>final_text\<close> with every
  non-empty final appended before it: the loop only appends. A file session that
  raises has no transcript: the finals emitted before the exception are dropped. With
  \<open>st.error\<close> and \<open>os.unlink\<close> raising nothing, when the body of \<open>try\<close> raises an
  \<open>Exception\<close> the method returns \<open>Error during transcription.\<close>, for a WAV file the
  fallback refuses it returns one of the two format messages, and \<open>main\<close> stores the
  returned string as \<open>vosk_transcript\<close> in place of what it held; an exception that is
  not an \<open>Exception\<close> reaches \<open>main\<close> before the assignment.
\<close>

theorem abort_discards_file_transcript:
  assumes "\<forall>message. st_error P message = None" and "\<forall>p. os_unlink P p = None"
    and "model (vosk_recognizer st) = Some m"
  shows "listen_audio V rec ft q
       = (ft @ with_trailing_space
                 (filter (\<lambda>t. t \<noteq> []) (map get_text (fst (emitted_finals V rec q)))),
          snd (emitted_finals V rec q))
   \<and> (snd (emitted_finals V rec chunks) = Inl e \<longrightarrow> transcribe_chunks V rec chunks = Inl e)
   \<and> (snd (snd (try_body V P (vosk_recognizer st) m fs f)) = Inl (PyException x) \<longrightarrow>
        fst (transcribe_button V P st fs f)
          = Inr (st\<lparr>vosk_transcript := u ''Error during transcription.''\<rparr>))
   \<and> (LIBROSA_AVAILABLE P = False \<longrightarrow>
        NamedTemporaryFile P fs (file_extension P f) = Inr created \<longrightarrow> read f = Inr content \<longrightarrow>
        wave_open P content = Inr w \<longrightarrow> mismatched (sample_rate (vosk_recognizer st)) w \<noteq> {} \<longrightarrow>
        fst (transcribe_button V P st fs f) = Inr (st\<lparr>vosk_transcript := unsupported_wav\<rparr>)
        \<or> fst (transcribe_button V P st fs f)
             = Inr (st\<lparr>vosk_transcript :=
                        wrong_rate (sample_rate (vosk_recognizer st)) (framerate w)\<rparr>))
   \<and> (snd (snd (try_body V P (vosk_recognizer st) m fs f)) = Inl (PyBaseException x) \<longrightarrow>
        fst (transcribe_button V P st fs f) = Inl (PyBaseException x))"
proof (intro conjI impI)
  from assms have s: "\<And>message. st_error P message = None" and o: "\<And>p. os_unlink P p = None"
    and m: "model (vosk_recognizer st) = Some m"
    by simp_all
  show "listen_audio V rec ft q
       = (ft @ with_trailing_space
                 (filter (\<lambda>t. t \<noteq> []) (map get_text (fst (emitted_finals V rec q)))),
          snd (emitted_finals V rec q))"
    by (rule listen_audio_emitted)
  {
    assume "snd (emitted_finals V rec chunks) = Inl e"
    then show "transcribe_chunks V rec chunks = Inl e"
      by (rule transcribe_chunks_aborts)
  }
  {
    assume "snd (snd (try_body V P (vosk_recognizer st) m fs f)) = Inl (PyException x)"
    from exception_returned [OF s o m this]
    show "fst (transcribe_button V P st fs f)
          = Inr (st\<lparr>vosk_transcript := u ''Error during transcription.''\<rparr>)"
      by (simp add: transcribe_button_stores)
  }
  {
    assume "LIBROSA_AVAILABLE P = False"
      "NamedTemporaryFile P fs (file_extension P f) = Inr created" "read f = Inr content"
      "wave_open P content = Inr w" "mismatched (sample_rate (vosk_recognizer st)) w \<noteq> {}"
    then show "fst (transcribe_button V P st fs f) = Inr (st\<lparr>vosk_transcript := unsupported_wav\<rparr>)
        \<or> fst (transcribe_button V P st fs f)
             = Inr (st\<lparr>vosk_transcript :=
                        wrong_rate (sample_rate (vosk_recognizer st)) (framerate w)\<rparr>)"
      using unsupported_file_returned [of P "vosk_recognizer st" m fs f created content w V,
          OF o m]
      by (auto simp add: transcribe_button_stores)
  }
  {
    assume "snd (snd (try_body V P (vosk_recognizer st) m fs f)) = Inl (PyBaseException x)"
    from base_exception_raised [OF o m this]
    show "fst (transcribe_button V P st fs f) = Inl (PyBaseException x)"
      by (simp add: transcribe_button_stores)
  }
qed

theorem abort_discards_file_transcript_witness:
  "listen_audio letter_vosk [] (u ''x '')
       [tobytes (replicate chunk_size 97), tobytes (replicate chunk_size 46),
        tobytes (replicate chunk_size 33)]
     = (u ''x a '', Inl (PyException ''Failed to process waveform''))
   \<and> transcribe_chunks letter_vosk []
       [tobytes (replicate chunk_size 97), tobytes (replicate chunk_size 46),
        tobytes (replicate chunk_size 33)] = Inl (PyException ''Failed to process waveform'')
   \<and> fst (transcribe_button letter_vosk (letter_platform True (pcm_header 1 2 16000))
         \<lparr>vosk_recognizer = loaded, vosk_transcript = u ''earlier text''\<rparr> Map.empty
         (upload ''a.!''))
       = Inr \<lparr>vosk_recognizer = loaded, vosk_transcript = u ''Error during transcription.''\<rparr>
   \<and> fst (transcribe_button letter_vosk (letter_platform False (pcm_header 2 2 16000))
         \<lparr>vosk_recognizer = loaded, vosk_transcript = u ''earlier text''\<rparr> Map.empty
         (upload ''a.''))
       = Inr \<lparr>vosk_recognizer = loaded, vosk_transcript = unsupported_wav\<rparr>
   \<and> fst (transcribe_button letter_vosk (letter_platform True (pcm_header 1 2 16000))
         \<lparr>vosk_recognizer = loaded, vosk_transcript = u ''earlier text''\<rparr> Map.empty
         \<lparr>name = Some (u ''a.wav''), read = Inl (PyBaseException ''KeyboardInterrupt'')\<rparr>)
       = Inl (PyBaseException ''KeyboardInterrupt'')"
proof -
  let ?P = "letter_platform True (pcm_header 1 2 16000)"
  let ?Q = "letter_platform False (pcm_header 2 2 16000)"
  let ?q = "[tobytes (replicate chunk_size 97), tobytes (replicate chunk_size 46),
        tobytes (replicate chunk_size 33)]"
  let ?st = "\<lparr>vosk_recognizer = loaded, vosk_transcript = u ''earlier text''\<rparr>"
  let ?e = "PyException ''Failed to process waveform''"
  let ?f = "\<lparr>name = Some (u ''a.wav''), read = Inl (PyBaseException ''KeyboardInterrupt'')\<rparr>"
  let ?created = "(u ''/tmp/tmpabcdefgh.wav'', [u ''/tmp/tmpabcdefgh.wav'' \<mapsto> []])"
  have h: "\<forall>message. st_error (letter_platform l h) message = None"
    "\<forall>p. os_unlink (letter_platform l h) p = None" for l h
    by (simp_all add: letter_platform_simps)
  have m: "model (vosk_recognizer ?st) = Some ()" by (simp add: loaded_def)
  note th = abort_discards_file_transcript [OF h m, where V = letter_vosk and rec = "[]"
      and ft = "u ''x ''" and q = ?q and chunks = ?q and e = ?e and fs = Map.empty]
  have h1: "snd (emitted_finals letter_vosk [] ?q) = Inl ?e"
    by (simp add: letter_vosk_accept letter_vosk_simps)
  have h3: "snd (snd (try_body letter_vosk ?P (vosk_recognizer ?st) () Map.empty (upload ''a.!'')))
      = Inl ?e"
    by (simp add: try_body_outcome tmp_file_example upload_simps decode_audio_def
        letter_platform_simps loaded_simps recognize_def file_chunks_letter_samples
        transcribe_chunks_def letter_vosk_accept letter_vosk_simps)
  have h4: "snd (snd (try_body letter_vosk ?P (vosk_recognizer ?st) () Map.empty ?f))
      = Inl (PyBaseException ''KeyboardInterrupt'')"
    by (simp add: try_body_def NamedTemporaryFile_first file_extension_def
        letter_platform_simps u_def)
  from th [of True "pcm_header 1 2 16000"]
  have "listen_audio letter_vosk [] (u ''x '') ?q
       = (u ''x '' @ with_trailing_space
                 (filter (\<lambda>t. t \<noteq> []) (map get_text (fst (emitted_finals letter_vosk [] ?q)))),
          snd (emitted_finals letter_vosk [] ?q))"
    by (rule conjunct1)
  then have a: "listen_audio letter_vosk [] (u ''x '') ?q = (u ''x a '', Inl ?e)"
    by (simp add: letter_vosk_accept letter_vosk_simps get_text_def with_trailing_space_def u_def)
  from th [of True "pcm_header 1 2 16000"] h1
  have b: "transcribe_chunks letter_vosk [] ?q = Inl ?e" by blast
  from th [of True "pcm_header 1 2 16000", where f = "upload ''a.!''"
      and x = "''Failed to process waveform''"] h3
  have c: "fst (transcribe_button letter_vosk ?P ?st Map.empty (upload ''a.!''))
      = Inr (?st\<lparr>vosk_transcript := u ''Error during transcription.''\<rparr>)"
    by blast
  have l: "LIBROSA_AVAILABLE ?Q = False" by (simp add: letter_platform_simps)
  have n: "NamedTemporaryFile ?Q Map.empty (file_extension ?Q (upload ''a.'')) = Inr ?created"
    by (rule tmp_file_example)
  have r: "read (upload ''a.'') = Inr [97, 46]" by (simp add: upload_def)
  have w: "wave_open ?Q [97, 46] = Inr (pcm_header 2 2 16000\<lparr>frames := [97, 46]\<rparr>)"
    by (simp add: letter_platform_simps)
  have mm: "mismatched (sample_rate (vosk_recognizer ?st))
      (pcm_header 2 2 16000\<lparr>frames := [97, 46]\<rparr>) \<noteq> {}"
    by (simp add: mismatched_def pcm_header_def loaded_def)
  from th [of False "pcm_header 2 2 16000", where f = "upload ''a.''" and created = ?created
      and content = "[97, 46]" and w = "pcm_header 2 2 16000\<lparr>frames := [97, 46]\<rparr>"] l n r w mm
  have "fst (transcribe_button letter_vosk ?Q ?st Map.empty (upload ''a.''))
        = Inr (?st\<lparr>vosk_transcript := unsupported_wav\<rparr>)
      \<or> fst (transcribe_button letter_vosk ?Q ?st Map.empty (upload ''a.''))
          = Inr (?st\<lparr>vosk_transcript := wrong_rate (sample_rate (vosk_recognizer ?st))
                   (framerate (pcm_header 2 2 16000\<lparr>frames := [97, 46]\<rparr>))\<rparr>)"
    by blast
  moreover have "fst (transcribe_button letter_vosk ?Q ?st Map.empty (upload ''a.''))
      \<noteq> Inr (?st\<lparr>vosk_transcript := wrong_rate (sample_rate (vosk_recognizer ?st))
                   (framerate (pcm_header 2 2 16000\<lparr>frames := [97, 46]\<rparr>))\<rparr>)"
    by (simp add: transcribe_button_stores letter_returned letter_except try_body_outcome
        tmp_file_example decode_audio_def letter_platform_simps loaded_simps upload_simps
        pcm_header_simps unsupported_wav_def wrong_rate_def u_def)
  ultimately have d: "fst (transcribe_button letter_vosk ?Q ?st Map.empty (upload ''a.''))
        = Inr (?st\<lparr>vosk_transcript := unsupported_wav\<rparr>)"
    by blast
  from th [of True "pcm_header 1 2 16000", where f = ?f and x = "''KeyboardInterrupt''"] h4
  have k: "fst (transcribe_button letter_vosk ?P ?st Map.empty ?f)
      = Inl (PyBaseException ''KeyboardInterrupt'')"
    by blast
  from a b c d k show ?thesis by simp
qed

end
